theory Spec2Isabelle
  imports Main "HOL-Library.Product_Lexorder"
begin

section \<open>The syntax tree consumed by the extraction engine\<close>

text \<open>
  The parsers of \<^verbatim>\<open>treesitter/treesitter_py.py\<close> and \<^verbatim>\<open>treesitter/treesitter_java.py\<close>
  never look at the source text itself: they walk the concrete syntax tree that the
  tree-sitter library hands back and read, per node, its \<^verbatim>\<open>type\<close>, \<^verbatim>\<open>text\<close>,
  \<^verbatim>\<open>start_point\<close>, \<^verbatim>\<open>end_point\<close>, \<^verbatim>\<open>children\<close>, \<^verbatim>\<open>child_by_field_name\<close>,
  \<^verbatim>\<open>prev_sibling\<close> and \<^verbatim>\<open>prev_named_sibling\<close>. The tree is therefore the input of
  the model. A node carries the name of the grammar field under which its parent holds it
  (\<open>field_name\<close>) and whether it is a named node of the grammar (\<open>is_named\<close>; keyword and
  punctuation tokens are anonymous, and their \<open>node_type\<close> is the token's own text).
  A point is a (row, column) pair, rows counted from 0. Text is kept as a \<open>string\<close>:
  \<^verbatim>\<open>node.text.decode('utf-8')\<close> of a node of a tree built from UTF-8 bytes.
\<close>

type_synonym point = "nat \<times> nat"

datatype node = Node
  (node_type: string)
  (field_name: "string option")
  (is_named: bool)
  (node_text: string)
  (start_point: point)
  (end_point: point)
  (children: "node list")

text \<open>\<^verbatim>\<open>node.child_by_field_name(f)\<close>: the first child held under field \<open>f\<close>, or \<^verbatim>\<open>None\<close>.\<close>

definition child_by_field_name :: "node \<Rightarrow> string \<Rightarrow> node option" where
  "child_by_field_name n f = find (\<lambda>c. field_name c = Some f) (children n)"

section \<open>Errors\<close>

text \<open>
  The exceptions the code raises or lets through, each with its message (\<^verbatim>\<open>str(e)\<close>).
\<close>

datatype error = ValueError string | IndexError string | Exception string

fun str :: "error \<Rightarrow> string" where
  "str (ValueError m) = m"
| "str (IndexError m) = m"
| "str (Exception m) = m"

section \<open>\<^verbatim>\<open>MultiLanguageParser\<close>: the profile table\<close>

text \<open>
  A value of \<^verbatim>\<open>LANGUAGE_CONFIGS[lang]['method_identifier']\<close> is a Python string for four
  profiles and a Python list of strings for java. The code compares it with
  \<^verbatim>\<open>node.type == self.config['method_identifier']\<close>; a string never equals a list.
\<close>

datatype pyval = PyStr string | PyList "string list"

fun str_eq_pyval :: "string \<Rightarrow> pyval \<Rightarrow> bool" where
  "str_eq_pyval s (PyStr t) = (s = t)"
| "str_eq_pyval s (PyList ts) = False"

text \<open>The \<^verbatim>\<open>'module'\<close> entry (the grammar handed to tree-sitter) is outside the model.\<close>

record config =
  method_identifier :: pyval
  class_identifier :: string
  import_identifiers :: "string list"
  docstring_type :: string
  name_field :: string
  params_field :: string

definition python_config :: config where
  "python_config = \<lparr>
     method_identifier = PyStr ''def_statement'',
     class_identifier = ''class'',
     import_identifiers = [''import statement'', ''from statement import list''],
     docstring_type = ''string'',
     name_field = ''name'',
     params_field = ''parameters'' \<rparr>"

definition java_config :: config where
  "java_config = \<lparr>
     method_identifier = PyList [''public void exampleMethod(){'',
       ''public static void exampleMethod(){'', ''private void exampleMethod(){''],
     class_identifier = ''public class Example {'',
     import_identifiers = [''import Scanner'', ''import java.util.Scanner'', ''import java.util.*''],
     docstring_type = ''comment'',
     name_field = ''name'',
     params_field = ''formal_parameters'' \<rparr>"

definition cpp_config :: config where
  "cpp_config = \<lparr>
     method_identifier = PyStr ''void function_name(){'',
     class_identifier = ''class Example{'',
     import_identifiers = [''#include <iostream>'', ''#include <vector>'', ''#include <string>''],
     docstring_type = ''comment'',
     name_field = ''declarator'',
     params_field = ''parameter_list'' \<rparr>"

definition c_config :: config where
  "c_config = \<lparr>
     method_identifier = PyStr ''void function_name(){'',
     class_identifier = ''struct Example{'',
     import_identifiers = [''#include <stdio.h>'', ''#include <stdlib.h>'', ''#include <string.h>''],
     docstring_type = ''comment'',
     name_field = ''declarator'',
     params_field = ''parameter_list'' \<rparr>"

definition javascript_config :: config where
  "javascript_config = \<lparr>
     method_identifier = PyStr ''function exampleFunction(){'',
     class_identifier = ''class declaration{'',
     import_identifiers = [''import * as fs from '' @ [CHR 0x22] @ ''fs'' @ [CHR 0x22],
       ''import * as path from '' @ [CHR 0x22] @ ''path'' @ [CHR 0x22],
       ''import { example } from '' @ [CHR 0x22] @ ''./example'' @ [CHR 0x22]],
     docstring_type = ''comment'',
     name_field = ''name'',
     params_field = ''formal_parameters'' \<rparr>"

definition LANGUAGE_CONFIGS :: "string \<rightharpoonup> config" where
  "LANGUAGE_CONFIGS = map_of
     [(''python'', python_config), (''java'', java_config), (''cpp'', cpp_config),
      (''c'', c_config), (''javascript'', javascript_config)]"

section \<open>\<^verbatim>\<open>MultiLanguageParser.__init__\<close>\<close>

text \<open>
  \<^verbatim>\<open>str.lower()\<close> on the ASCII letters. Bytes from 128 on (the UTF-8 encoding of other
  code points) are left as they are; no lower-cased non-ASCII code point is spelled with
  the letters of the five profile names alone, so membership in the table is not affected.
\<close>

definition lower_char :: "char \<Rightarrow> char" where
  "lower_char c = (let n = (of_char c :: nat) in if 65 \<le> n \<and> n \<le> 90 then char_of (n + 32) else c)"

definition lower :: "string \<Rightarrow> string" where
  "lower s = map lower_char s"

text \<open>The parser object: \<^verbatim>\<open>self.language\<close> and \<^verbatim>\<open>self.config\<close>.\<close>

record parser =
  language :: string
  config :: config

text \<open>
  \<^verbatim>\<open>_initialize_parser\<close> hands the grammar to tree-sitter and turns any exception of that
  call into \<^verbatim>\<open>Exception("Failed to initialize parser for ...")\<close>. The outcome of the
  library call is the parameter \<open>set_language\<close>: \<open>None\<close> when it returns, \<open>Some e\<close> when it
  raises \<open>e\<close>.
\<close>

definition initialize_parser :: "string \<Rightarrow> error option \<Rightarrow> error + unit" where
  "initialize_parser lang set_language =
     (case set_language of
        None \<Rightarrow> Inr ()
      | Some e \<Rightarrow> Inl (Exception (''Failed to initialize parser for '' @ lang @ '' language: '' @ str e)))"

definition init :: "string \<Rightarrow> error option \<Rightarrow> error + parser" where
  "init lang set_language =
     (case LANGUAGE_CONFIGS (lower lang) of
        None \<Rightarrow> Inl (ValueError (''Unsupported language: '' @ lang))
      | Some cfg \<Rightarrow>
          (case initialize_parser (lower lang) set_language of
             Inl e \<Rightarrow> Inl e
           | Inr _ \<Rightarrow> Inr \<lparr> language = lower lang, config = cfg \<rparr>))"

section \<open>\<^verbatim>\<open>MultiLanguageParser\<close>: name and documentation\<close>

text \<open>
  \<^verbatim>\<open>_extract_name(node)\<close>; the argument is \<^verbatim>\<open>None\<close> when the field lookup found nothing.
\<close>

definition extract_name :: "parser \<Rightarrow> node option \<Rightarrow> string" where
  "extract_name self node =
     (case node of
        None \<Rightarrow> ''''
      | Some n \<Rightarrow>
          if language self \<in> set [''cpp'', ''c''] then
            (if node_type n = ''function_declarator'' then
               (case find (\<lambda>child. node_type child = ''identifier'') (children n) of
                  Some child \<Rightarrow> node_text child
                | None \<Rightarrow> node_text n)
             else node_text n)
          else node_text n)"

text \<open>
  The python loop of \<^verbatim>\<open>_find_docstring\<close> over \<^verbatim>\<open>node.children\<close>: \<open>Inr (Some s)\<close> is
  \<^verbatim>\<open>return s\<close> from inside the loop, \<open>Inr None\<close> is the loop running to its end, and
  \<^verbatim>\<open>child.children[0]\<close> of a childless \<^verbatim>\<open>expression_statement\<close> raises \<^verbatim>\<open>IndexError\<close>.
\<close>

fun docstring_loop :: "node list \<Rightarrow> error + string option" where
  "docstring_loop [] = Inr None"
| "docstring_loop (child # rest) =
     (if node_type child = ''expression_statement'' then
        (case children child of
           [] \<Rightarrow> Inl (IndexError ''list index out of range'')
         | string_node # _ \<Rightarrow>
             if node_type string_node = ''string'' then Inr (Some (node_text string_node))
             else docstring_loop rest)
      else docstring_loop rest)"

text \<open>
  The lines after the loop: \<^verbatim>\<open>node.prev_named_sibling\<close> is the argument \<open>prev\<close>.
\<close>

definition comment_style_doc :: "parser \<Rightarrow> node option \<Rightarrow> string" where
  "comment_style_doc self prev =
     (case prev of
        None \<Rightarrow> ''''
      | Some prev_sibling \<Rightarrow>
          if node_type prev_sibling = docstring_type (config self) then node_text prev_sibling
          else '''')"

definition find_docstring :: "parser \<Rightarrow> node option \<Rightarrow> node \<Rightarrow> error + string" where
  "find_docstring self prev node =
     (if language self = ''python'' then
        (case docstring_loop (children node) of
           Inl e \<Rightarrow> Inl e
         | Inr (Some s) \<Rightarrow> Inr s
         | Inr None \<Rightarrow> Inr (comment_style_doc self prev))
      else Inr (comment_style_doc self prev))"

section \<open>\<^verbatim>\<open>MultiLanguageParser\<close>: the four traversals\<close>

text \<open>
  Each \<^verbatim>\<open>_extract_*\<close> method runs a recursive closure that appends to a list and then
  visits \<^verbatim>\<open>node.children\<close> in order. The model returns the appended records in the order
  of the appends; an exception ends the traversal and discards the list.
  \<open>prev\<close> is the node's \<^verbatim>\<open>prev_named_sibling\<close>: for the children of a node it is the last
  named child seen before the child at hand.
\<close>

record import_record =
  import_type :: string
  import_text :: string

fun visit_import :: "parser \<Rightarrow> node \<Rightarrow> import_record list"
  and visit_import_children :: "parser \<Rightarrow> node list \<Rightarrow> import_record list" where
  "visit_import self (Node ty fld nm tx sp ep cs) =
     (if ty \<in> set (import_identifiers (config self))
      then [\<lparr> import_type = ty, import_text = tx \<rparr>] else [])
     @ visit_import_children self cs"
| "visit_import_children self [] = []"
| "visit_import_children self (child # rest) =
     visit_import self child @ visit_import_children self rest"

definition extract_imports :: "parser \<Rightarrow> node \<Rightarrow> import_record list" where
  "extract_imports self node = visit_import self node"

text \<open>\<^verbatim>\<open>TreesitterMethodNode\<close>.\<close>

record method_node =
  name :: string
  doc_comment :: string
  method_source_code :: string
  start_line :: nat
  end_line :: nat

fun visit_function :: "parser \<Rightarrow> node option \<Rightarrow> node \<Rightarrow> error + method_node list"
  and visit_function_children :: "parser \<Rightarrow> node option \<Rightarrow> node list \<Rightarrow> error + method_node list" where
  "visit_function self prev (Node ty fld nm tx sp ep cs) =
     (case (if str_eq_pyval ty (method_identifier (config self)) then
              (case find_docstring self prev (Node ty fld nm tx sp ep cs) of
                 Inl e \<Rightarrow> Inl e
               | Inr doc \<Rightarrow> Inr [\<lparr> name = extract_name self
                                         (child_by_field_name (Node ty fld nm tx sp ep cs)
                                            (name_field (config self))),
                                   doc_comment = doc,
                                   method_source_code = tx,
                                   start_line = fst sp,
                                   end_line = fst ep \<rparr>])
            else Inr []) of
        Inl e \<Rightarrow> Inl e
      | Inr here \<Rightarrow>
          (case visit_function_children self None cs of
             Inl e \<Rightarrow> Inl e
           | Inr below \<Rightarrow> Inr (here @ below)))"
| "visit_function_children self prev [] = Inr []"
| "visit_function_children self prev (child # rest) =
     (case visit_function self prev child of
        Inl e \<Rightarrow> Inl e
      | Inr first \<Rightarrow>
          (case visit_function_children self (if is_named child then Some child else prev) rest of
             Inl e \<Rightarrow> Inl e
           | Inr later \<Rightarrow> Inr (first @ later)))"

definition extract_functions :: "parser \<Rightarrow> node option \<Rightarrow> node \<Rightarrow> error + method_node list" where
  "extract_functions self prev node = visit_function self prev node"

text \<open>The dictionary that \<^verbatim>\<open>_extract_classes\<close> appends for a class node.\<close>

record class_record =
  class_name :: string
  docstring :: string
  methods :: "method_node list"
  class_start_point :: point
  class_end_point :: point

fun visit_class :: "parser \<Rightarrow> node option \<Rightarrow> node \<Rightarrow> error + class_record list"
  and visit_class_children :: "parser \<Rightarrow> node option \<Rightarrow> node list \<Rightarrow> error + class_record list" where
  "visit_class self prev (Node ty fld nm tx sp ep cs) =
     (case (if ty = class_identifier (config self) then
              (case find_docstring self prev (Node ty fld nm tx sp ep cs) of
                 Inl e \<Rightarrow> Inl e
               | Inr doc \<Rightarrow>
                   (case extract_functions self prev (Node ty fld nm tx sp ep cs) of
                      Inl e \<Rightarrow> Inl e
                    | Inr ms \<Rightarrow> Inr [\<lparr> class_name = extract_name self
                                             (child_by_field_name (Node ty fld nm tx sp ep cs)
                                                (name_field (config self))),
                                       docstring = doc,
                                       methods = ms,
                                       class_start_point = sp,
                                       class_end_point = ep \<rparr>]))
            else Inr []) of
        Inl e \<Rightarrow> Inl e
      | Inr here \<Rightarrow>
          (case visit_class_children self None cs of
             Inl e \<Rightarrow> Inl e
           | Inr below \<Rightarrow> Inr (here @ below)))"
| "visit_class_children self prev [] = Inr []"
| "visit_class_children self prev (child # rest) =
     (case visit_class self prev child of
        Inl e \<Rightarrow> Inl e
      | Inr first \<Rightarrow>
          (case visit_class_children self (if is_named child then Some child else prev) rest of
             Inl e \<Rightarrow> Inl e
           | Inr later \<Rightarrow> Inr (first @ later)))"

definition extract_classes :: "parser \<Rightarrow> node option \<Rightarrow> node \<Rightarrow> error + class_record list" where
  "extract_classes self prev node = visit_class self prev node"

text \<open>
  A variable record is a Python dictionary whose keys depend on the language; it is kept
  as the list of its (key, value) pairs in the order of the literal.
\<close>

type_synonym variable_record = "(string \<times> string) list"

text \<open>The inner loop of the javascript branch, over the children of a declaration.\<close>

fun declarator_loop :: "node list \<Rightarrow> variable_record list" where
  "declarator_loop [] = []"
| "declarator_loop (declarator # rest) =
     (if node_type declarator = ''variable_declarator'' then
        (case child_by_field_name declarator ''name'' of
           Some name_node \<Rightarrow>
             [[(''name'', node_text name_node),
               (''value'', (case child_by_field_name declarator ''value'' of
                              Some value_node \<Rightarrow> node_text value_node
                            | None \<Rightarrow> ''''))]]
         | None \<Rightarrow> [])
      else [])
     @ declarator_loop rest"

text \<open>What one call of \<^verbatim>\<open>visit_variable\<close> appends before it descends.\<close>

definition variables_at :: "parser \<Rightarrow> node \<Rightarrow> variable_record list" where
  "variables_at self node =
     (if language self \<in> set [''python''] then
        (if node_type node = ''assignment'' then
           (case (child_by_field_name node ''left'', child_by_field_name node ''right'') of
              (Some left_node, Some right_node) \<Rightarrow>
                [[(''name'', node_text left_node), (''value'', node_text right_node)]]
            | _ \<Rightarrow> [])
         else [])
      else if language self \<in> set [''java'', ''cpp'', ''c''] then
        (if node_type node = ''declaration'' then
           (case child_by_field_name node ''declarator'' of
              Some name_node \<Rightarrow>
                [[(''name'', node_text name_node),
                  (''type'', (case child_by_field_name node ''type'' of
                               Some type_node \<Rightarrow> node_text type_node
                             | None \<Rightarrow> ''''))]]
            | None \<Rightarrow> [])
         else [])
      else if language self = ''javascript'' then
        (if node_type node \<in> set [''variable_declaration'', ''lexical_declaration'']
         then declarator_loop (children node) else [])
      else [])"

fun visit_variable :: "parser \<Rightarrow> node \<Rightarrow> variable_record list"
  and visit_variable_children :: "parser \<Rightarrow> node list \<Rightarrow> variable_record list" where
  "visit_variable self (Node ty fld nm tx sp ep cs) =
     variables_at self (Node ty fld nm tx sp ep cs) @ visit_variable_children self cs"
| "visit_variable_children self [] = []"
| "visit_variable_children self (child # rest) =
     visit_variable self child @ visit_variable_children self rest"

definition extract_variables :: "parser \<Rightarrow> node \<Rightarrow> variable_record list" where
  "extract_variables self node = visit_variable self node"

section \<open>\<^verbatim>\<open>MultiLanguageParser.parse\<close>\<close>

text \<open>
  \<^verbatim>\<open>self.parser.parse(bytes(source_code, 'utf8'))\<close> is the call into tree-sitter. Its
  outcome is the input of the model: the root node of the tree it returns, or the
  exception it (or the encoding of the text) raises. The root has no previous sibling.
  The entries of the result are computed in the order of the dictionary literal, and
  every exception is re-raised as \<^verbatim>\<open>Exception("Failed to parse <language> source code: ...")\<close>.
  The traversals are recursive closures; on a tree deeper than the interpreter's recursion
  limit they raise \<^verbatim>\<open>RecursionError\<close>, which \<^verbatim>\<open>parse\<close> re-raises like any other
  exception. The limit is not part of the model, whose traversals are total: the
  theorems below speak of the results that \<^verbatim>\<open>parse\<close> returns and of the form of its
  failures, and none of them says that \<^verbatim>\<open>parse\<close> returns for every tree.
\<close>

datatype tree_outcome = Raises error | Tree node

text \<open>
  The dictionary returned by \<^verbatim>\<open>parse\<close>, keys \<^verbatim>\<open>'imports'\<close>, \<^verbatim>\<open>'classes'\<close>,
  \<^verbatim>\<open>'functions'\<close> and \<^verbatim>\<open>'variables'\<close>.
\<close>

record parse_result =
  res_imports :: "import_record list"
  res_classes :: "class_record list"
  res_functions :: "method_node list"
  res_variables :: "variable_record list"

definition parse_failure :: "parser \<Rightarrow> error \<Rightarrow> error" where
  "parse_failure self e = Exception (''Failed to parse '' @ language self @ '' source code: '' @ str e)"

definition parse :: "parser \<Rightarrow> tree_outcome \<Rightarrow> error + parse_result" where
  "parse self outcome =
     (case outcome of
        Raises e \<Rightarrow> Inl (parse_failure self e)
      | Tree root_node \<Rightarrow>
          (case extract_classes self None root_node of
             Inl e \<Rightarrow> Inl (parse_failure self e)
           | Inr cls \<Rightarrow>
               (case extract_functions self None root_node of
                  Inl e \<Rightarrow> Inl (parse_failure self e)
                | Inr fns \<Rightarrow>
                    Inr \<lparr> res_imports = extract_imports self root_node,
                          res_classes = cls,
                          res_functions = fns,
                          res_variables = extract_variables self root_node \<rparr>)))"

section \<open>\<^verbatim>\<open>JavaParser\<close>\<close>

text \<open>
  The java-only parser of \<^verbatim>\<open>treesitter/treesitter_java.py\<close>. Its documentation lookup
  reads \<^verbatim>\<open>node.prev_sibling\<close> (named or not), so its traversals carry the previous
  sibling of any kind in \<open>prev\<close>. The methods are modelled as functions of the node
  they are given; the constructor is left out (it calls \<^verbatim>\<open>TreeSitterBase.__init__\<close>
  without the language argument that method requires). As for \<^verbatim>\<open>parse\<close>, the
  interpreter's recursion limit is not modelled: what is proved of \<open>parse_code\<close> is
  proved of the results it returns.
\<close>

definition java_extract_package :: "node \<Rightarrow> string" where
  "java_extract_package node =
     (case find (\<lambda>child. node_type child = ''package_declaration'') (children node) of
        Some child \<Rightarrow> node_text child
      | None \<Rightarrow> '''')"

definition java_extract_imports :: "node \<Rightarrow> import_record list" where
  "java_extract_imports node =
     map (\<lambda>child. \<lparr> import_type = ''import'', import_text = node_text child \<rparr>)
       (filter (\<lambda>child. node_type child = ''import_declaration'') (children node))"

definition java_extract_doc_comment :: "node option \<Rightarrow> string" where
  "java_extract_doc_comment prev =
     (case prev of
        None \<Rightarrow> ''''
      | Some prev_sibling \<Rightarrow>
          if node_type prev_sibling = ''comment'' then node_text prev_sibling else '''')"

text \<open>
  One round of the loop over the children of a \<^verbatim>\<open>formal_parameter\<close>, on the pair
  (\<^verbatim>\<open>param_type\<close>, \<^verbatim>\<open>param_name\<close>).
\<close>

definition param_step :: "node \<Rightarrow> string option \<times> string option \<Rightarrow> string option \<times> string option" where
  "param_step param_child acc =
     (if node_type param_child = ''type_identifier'' then (Some (node_text param_child), snd acc)
      else if node_type param_child = ''identifier'' then (fst acc, Some (node_text param_child))
      else acc)"

text \<open>\<^verbatim>\<open>if a and b\<close> on two values that are \<^verbatim>\<open>None\<close> or a string: both set and non-empty.\<close>

definition both_truthy :: "string option \<times> string option \<Rightarrow> (string \<times> string) option" where
  "both_truthy acc =
     (case acc of
        (Some a, Some b) \<Rightarrow> if a \<noteq> [] \<and> b \<noteq> [] then Some (a, b) else None
      | _ \<Rightarrow> None)"

definition parameter_of :: "node \<Rightarrow> (string \<times> string) list list" where
  "parameter_of param =
     (if node_type param = ''formal_parameter'' then
        (case both_truthy (fold param_step (children param) (None, None)) of
           Some (param_type, param_name) \<Rightarrow> [[(''type'', param_type), (''name'', param_name)]]
         | None \<Rightarrow> [])
      else [])"

definition java_extract_parameters :: "node \<Rightarrow> (string \<times> string) list list" where
  "java_extract_parameters method_node =
     concat (map (\<lambda>child. if node_type child = ''formal_parameters''
                           then concat (map parameter_of (children child)) else [])
               (children method_node))"

definition java_extract_return_type :: "node \<Rightarrow> string" where
  "java_extract_return_type method_node =
     (case find (\<lambda>child. node_type child \<in> set [''type_identifier'', ''void_type''])
             (children method_node) of
        Some child \<Rightarrow> node_text child
      | None \<Rightarrow> ''void'')"

text \<open>
  One round of the loop over the children of a \<^verbatim>\<open>field_declaration\<close>, on the pair
  (\<^verbatim>\<open>field_type\<close>, \<^verbatim>\<open>field_name\<close>), and of the loop inside it over the children of a
  \<^verbatim>\<open>variable_declarator\<close>.
\<close>

definition var_step :: "node \<Rightarrow> string option \<Rightarrow> string option" where
  "var_step var_child fname =
     (if node_type var_child = ''identifier'' then Some (node_text var_child) else fname)"

definition field_step :: "node \<Rightarrow> string option \<times> string option \<Rightarrow> string option \<times> string option" where
  "field_step field_child acc =
     (if node_type field_child = ''type_identifier'' then (Some (node_text field_child), snd acc)
      else if node_type field_child = ''variable_declarator''
        then (fst acc, fold var_step (children field_child) (snd acc))
      else acc)"

definition field_of :: "node \<Rightarrow> (string \<times> string) list list" where
  "field_of child =
     (if node_type child = ''field_declaration'' then
        (case both_truthy (fold field_step (children child) (None, None)) of
           Some (field_type, fname) \<Rightarrow> [[(''type'', field_type), (''name'', fname)]]
         | None \<Rightarrow> [])
      else [])"

definition java_extract_fields :: "node \<Rightarrow> (string \<times> string) list list" where
  "java_extract_fields class_node = concat (map field_of (children class_node))"

text \<open>The dictionary \<^verbatim>\<open>method_info\<close>.\<close>

record java_method =
  jm_name :: string
  jm_source_code :: string
  jm_doc_comment :: string
  jm_start_point :: point
  jm_end_point :: point
  jm_parameters :: "(string \<times> string) list list"
  jm_return_type :: string

text \<open>
  The name lookup shared by the three java traversals: the first child of type
  \<^verbatim>\<open>identifier\<close>.
\<close>

definition identifier_child :: "node \<Rightarrow> node option" where
  "identifier_child node = find (\<lambda>child. node_type child = ''identifier'') (children node)"

fun visit_method :: "node option \<Rightarrow> node \<Rightarrow> java_method list"
  and visit_method_children :: "node option \<Rightarrow> node list \<Rightarrow> java_method list" where
  "visit_method prev (Node ty fld nm tx sp ep cs) =
     (if ty = ''method_declaration'' then
        (case identifier_child (Node ty fld nm tx sp ep cs) of
           Some name_node \<Rightarrow>
             [\<lparr> jm_name = node_text name_node,
                jm_source_code = tx,
                jm_doc_comment = java_extract_doc_comment prev,
                jm_start_point = sp,
                jm_end_point = ep,
                jm_parameters = java_extract_parameters (Node ty fld nm tx sp ep cs),
                jm_return_type = java_extract_return_type (Node ty fld nm tx sp ep cs) \<rparr>]
         | None \<Rightarrow> [])
      else [])
     @ visit_method_children None cs"
| "visit_method_children prev [] = []"
| "visit_method_children prev (child # rest) =
     visit_method prev child @ visit_method_children (Some child) rest"

definition java_extract_methods :: "node option \<Rightarrow> node \<Rightarrow> java_method list" where
  "java_extract_methods prev node = visit_method prev node"

text \<open>The dictionary \<^verbatim>\<open>class_info\<close>.\<close>

record java_class =
  jc_name :: string
  jc_methods :: "java_method list"
  jc_doc_comment :: string
  jc_fields :: "(string \<times> string) list list"

fun java_visit_class :: "node option \<Rightarrow> node \<Rightarrow> java_class list"
  and java_visit_class_children :: "node option \<Rightarrow> node list \<Rightarrow> java_class list" where
  "java_visit_class prev (Node ty fld nm tx sp ep cs) =
     (if ty = ''class_declaration'' then
        (case identifier_child (Node ty fld nm tx sp ep cs) of
           Some name_node \<Rightarrow>
             [\<lparr> jc_name = node_text name_node,
                jc_methods = java_extract_methods prev (Node ty fld nm tx sp ep cs),
                jc_doc_comment = java_extract_doc_comment prev,
                jc_fields = java_extract_fields (Node ty fld nm tx sp ep cs) \<rparr>]
         | None \<Rightarrow> [])
      else [])
     @ java_visit_class_children None cs"
| "java_visit_class_children prev [] = []"
| "java_visit_class_children prev (child # rest) =
     java_visit_class prev child @ java_visit_class_children (Some child) rest"

definition java_extract_classes :: "node \<Rightarrow> java_class list" where
  "java_extract_classes node = java_visit_class None node"

text \<open>The dictionary \<^verbatim>\<open>interface_info\<close>.\<close>

record java_interface =
  ji_name :: string
  ji_methods :: "java_method list"
  ji_doc_comment :: string

fun visit_interface :: "node option \<Rightarrow> node \<Rightarrow> java_interface list"
  and visit_interface_children :: "node option \<Rightarrow> node list \<Rightarrow> java_interface list" where
  "visit_interface prev (Node ty fld nm tx sp ep cs) =
     (if ty = ''interface_declaration'' then
        (case identifier_child (Node ty fld nm tx sp ep cs) of
           Some name_node \<Rightarrow>
             [\<lparr> ji_name = node_text name_node,
                ji_methods = java_extract_methods prev (Node ty fld nm tx sp ep cs),
                ji_doc_comment = java_extract_doc_comment prev \<rparr>]
         | None \<Rightarrow> [])
      else [])
     @ visit_interface_children None cs"
| "visit_interface_children prev [] = []"
| "visit_interface_children prev (child # rest) =
     visit_interface prev child @ visit_interface_children (Some child) rest"

definition java_extract_interfaces :: "node \<Rightarrow> java_interface list" where
  "java_extract_interfaces node = visit_interface None node"

text \<open>
  \<^verbatim>\<open>parse_code\<close>, from the root node of the tree that tree-sitter returned; the keys of
  its dictionary are \<^verbatim>\<open>'imports'\<close>, \<^verbatim>\<open>'package'\<close>, \<^verbatim>\<open>'classes'\<close>, \<^verbatim>\<open>'functions'\<close> and
  \<^verbatim>\<open>'interfaces'\<close>.
\<close>

record java_result =
  java_imports :: "import_record list"
  java_package :: string
  java_classes :: "java_class list"
  java_functions :: "java_method list"
  java_interfaces :: "java_interface list"

definition parse_code :: "node \<Rightarrow> java_result" where
  "parse_code root_node =
     \<lparr> java_imports = java_extract_imports root_node,
       java_package = java_extract_package root_node,
       java_classes = java_extract_classes root_node,
       java_functions = java_extract_methods None root_node,
       java_interfaces = java_extract_interfaces root_node \<rparr>"

section \<open>Trees as tree-sitter builds them\<close>

text \<open>
  Points are compared as Python compares tuples, lexicographically; that is the order of
  \<open>nat \<times> nat\<close> here. In a tree built by tree-sitter every node ends no earlier than it
  starts, the children of a node lie inside the node's span, and they follow one another
  from left to right without overlap. \<open>wf_children lo hi cs\<close> says that the nodes \<open>cs\<close>
  lie, in this order and without overlap, between the points \<open>lo\<close> and \<open>hi\<close>.
\<close>

fun wf_node :: "node \<Rightarrow> bool"
  and wf_children :: "point \<Rightarrow> point \<Rightarrow> node list \<Rightarrow> bool" where
  "wf_node (Node ty fld nm tx sp ep cs) = (sp \<le> ep \<and> wf_children sp ep cs)"
| "wf_children lo hi [] = True"
| "wf_children lo hi (child # rest) =
     (lo \<le> start_point child \<and> end_point child \<le> hi \<and> wf_node child \<and>
      wf_children (end_point child) hi rest)"

text \<open>The nodes of a tree in the order a pre-order walk meets them, and their types.\<close>

fun preorder :: "node \<Rightarrow> node list"
  and preorder_children :: "node list \<Rightarrow> node list" where
  "preorder (Node ty fld nm tx sp ep cs) = Node ty fld nm tx sp ep cs # preorder_children cs"
| "preorder_children [] = []"
| "preorder_children (child # rest) = preorder child @ preorder_children rest"


text \<open>
  Order of a list of (start, end) spans between \<open>lo\<close> and \<open>hi\<close>: every span lies between
  the bounds, starts never decrease along the list, and of two spans the later one either
  starts no earlier than the earlier one ends, or ends no later than the earlier one ends
  (it lies inside it). All comparisons are non-strict. For spans of points, where the end
  point is the position after the last character, the first case says that the two spans
  share no character. For spans of lines, where the end is the last line itself, it allows
  the later span to start on the line on which the earlier one ends.
\<close>

definition spans_in_order :: "'a::linorder \<Rightarrow> 'a \<Rightarrow> ('a \<times> 'a) list \<Rightarrow> bool" where
  "spans_in_order lo hi xs =
     ((\<forall>x \<in> set xs. lo \<le> fst x \<and> fst x \<le> snd x \<and> snd x \<le> hi) \<and>
      sorted (map fst xs) \<and>
      sorted_wrt (\<lambda>a b. snd a \<le> fst b \<or> snd b \<le> snd a) xs)"

text \<open>
  For stating where records come from: the import record that \<^verbatim>\<open>visit_import\<close> makes
  of a node, the span of a node, and its first and last line.
\<close>

definition import_of :: "node \<Rightarrow> import_record" where
  "import_of n = \<lparr> import_type = node_type n, import_text = node_text n \<rparr>"

definition node_span :: "node \<Rightarrow> point \<times> point" where
  "node_span n = (start_point n, end_point n)"


text \<open>
  The span a record carries: a function record its first and last line, a class record
  its start and end point. Import and variable records carry no position.
\<close>

definition method_span :: "method_node \<Rightarrow> nat \<times> nat" where
  "method_span m = (start_line m, end_line m)"

definition class_span :: "class_record \<Rightarrow> point \<times> point" where
  "class_span c = (class_start_point c, class_end_point c)"

section \<open>Concrete inputs\<close>

text \<open>
  The trees below are the ones the tree-sitter grammars build for the quoted sources.
  \<open>token\<close> is an anonymous node (a keyword or punctuation mark): its type is its text.
\<close>

definition token :: "string \<Rightarrow> point \<Rightarrow> point \<Rightarrow> node" where
  "token s sp ep = Node s None False s sp ep []"

definition dq :: string where
  "dq = [CHR 0x22]"

definition nl :: string where
  "nl = [CHR 0x0A]"

text \<open>
  Python, three lines: \<^verbatim>\<open>def foo():\<close>, then indented by four blanks the docstring
  \<^verbatim>\<open>"""doc"""\<close>, then indented by four blanks \<^verbatim>\<open>return 1\<close>.
\<close>

definition py_def_source :: string where
  "py_def_source = ''def foo():'' @ nl @ ''    '' @ dq @ dq @ dq @ ''doc'' @ dq @ dq @ dq @ nl @ ''    return 1''"

definition py_def_tree :: node where
  "py_def_tree =
     Node ''module'' None True py_def_source (0, 0) (2, 12)
       [Node ''function_definition'' None True py_def_source (0, 0) (2, 12)
          [token ''def'' (0, 0) (0, 3),
           Node ''identifier'' (Some ''name'') True ''foo'' (0, 4) (0, 7) [],
           Node ''parameters'' (Some ''parameters'') True ''()'' (0, 7) (0, 9)
             [token ''('' (0, 7) (0, 8), token '')'' (0, 8) (0, 9)],
           token '':'' (0, 9) (0, 10),
           Node ''block'' (Some ''body'') True
               (dq @ dq @ dq @ ''doc'' @ dq @ dq @ dq @ nl @ ''    return 1'') (1, 4) (2, 12)
             [Node ''expression_statement'' None True (dq @ dq @ dq @ ''doc'' @ dq @ dq @ dq) (1, 4) (1, 13)
                [Node ''string'' None True (dq @ dq @ dq @ ''doc'' @ dq @ dq @ dq) (1, 4) (1, 13)
                   [Node ''string_start'' None True (dq @ dq @ dq) (1, 4) (1, 7) [],
                    Node ''string_content'' None True ''doc'' (1, 7) (1, 10) [],
                    Node ''string_end'' None True (dq @ dq @ dq) (1, 10) (1, 13) []]],
              Node ''return_statement'' None True ''return 1'' (2, 4) (2, 12)
                [token ''return'' (2, 4) (2, 10),
                 Node ''integer'' None True ''1'' (2, 11) (2, 12) []]]]]"

text \<open>
  The definition node of that tree and its body block, on their own: \<open>py_def_function\<close> is
  the one child of the root of \<open>py_def_tree\<close>, and \<open>py_def_body\<close> is its last child.
\<close>

definition py_def_body :: node where
  "py_def_body =
     Node ''block'' (Some ''body'') True
         (dq @ dq @ dq @ ''doc'' @ dq @ dq @ dq @ nl @ ''    return 1'') (1, 4) (2, 12)
       [Node ''expression_statement'' None True (dq @ dq @ dq @ ''doc'' @ dq @ dq @ dq) (1, 4) (1, 13)
          [Node ''string'' None True (dq @ dq @ dq @ ''doc'' @ dq @ dq @ dq) (1, 4) (1, 13)
             [Node ''string_start'' None True (dq @ dq @ dq) (1, 4) (1, 7) [],
              Node ''string_content'' None True ''doc'' (1, 7) (1, 10) [],
              Node ''string_end'' None True (dq @ dq @ dq) (1, 10) (1, 13) []]],
        Node ''return_statement'' None True ''return 1'' (2, 4) (2, 12)
          [token ''return'' (2, 4) (2, 10),
           Node ''integer'' None True ''1'' (2, 11) (2, 12) []]]"

definition py_def_function :: node where
  "py_def_function =
     Node ''function_definition'' None True py_def_source (0, 0) (2, 12)
       [token ''def'' (0, 0) (0, 3),
        Node ''identifier'' (Some ''name'') True ''foo'' (0, 4) (0, 7) [],
        Node ''parameters'' (Some ''parameters'') True ''()'' (0, 7) (0, 9)
          [token ''('' (0, 7) (0, 8), token '')'' (0, 8) (0, 9)],
        token '':'' (0, 9) (0, 10),
        py_def_body]"

text \<open>
  Python: \<^verbatim>\<open>class A:\<close> and, on the next line and indented by four blanks, \<^verbatim>\<open>pass\<close>.
  \<open>py_class_keyword\<close> is the keyword token that opens the statement.
\<close>

definition py_class_keyword :: node where
  "py_class_keyword = token ''class'' (0, 0) (0, 5)"


text \<open>Python, two lines: \<^verbatim>\<open>class A: pass\<close> and \<^verbatim>\<open>class B: pass\<close>.\<close>

definition py_two_classes_tree :: node where
  "py_two_classes_tree =
     Node ''module'' None True (''class A: pass'' @ nl @ ''class B: pass'') (0, 0) (1, 13)
       [Node ''class_definition'' None True ''class A: pass'' (0, 0) (0, 13)
          [token ''class'' (0, 0) (0, 5),
           Node ''identifier'' (Some ''name'') True ''A'' (0, 6) (0, 7) [],
           token '':'' (0, 7) (0, 8),
           Node ''block'' (Some ''body'') True ''pass'' (0, 9) (0, 13)
             [Node ''pass_statement'' None True ''pass'' (0, 9) (0, 13)
                [token ''pass'' (0, 9) (0, 13)]]],
        Node ''class_definition'' None True ''class B: pass'' (1, 0) (1, 13)
          [token ''class'' (1, 0) (1, 5),
           Node ''identifier'' (Some ''name'') True ''B'' (1, 6) (1, 7) [],
           token '':'' (1, 7) (1, 8),
           Node ''block'' (Some ''body'') True ''pass'' (1, 9) (1, 13)
             [Node ''pass_statement'' None True ''pass'' (1, 9) (1, 13)
                [token ''pass'' (1, 9) (1, 13)]]]]"

text \<open>Javascript: \<^verbatim>\<open>const a = 5;\<close>\<close>

definition js_const_tree :: node where
  "js_const_tree =
     Node ''program'' None True ''const a = 5;'' (0, 0) (0, 12)
       [Node ''lexical_declaration'' None True ''const a = 5;'' (0, 0) (0, 12)
          [Node ''const'' (Some ''kind'') False ''const'' (0, 0) (0, 5) [],
           Node ''variable_declarator'' None True ''a = 5'' (0, 6) (0, 11)
             [Node ''identifier'' (Some ''name'') True ''a'' (0, 6) (0, 7) [],
              token ''='' (0, 8) (0, 9),
              Node ''number'' (Some ''value'') True ''5'' (0, 10) (0, 11) []],
           token '';'' (0, 11) (0, 12)]]"

text \<open>C++: \<^verbatim>\<open>int *compute(int x){ return &x; }\<close>\<close>

definition cpp_pointer_declarator :: node where
  "cpp_pointer_declarator =
     Node ''pointer_declarator'' (Some ''declarator'') True ''*compute(int x)'' (0, 4) (0, 19)
       [token ''*'' (0, 4) (0, 5),
        Node ''function_declarator'' (Some ''declarator'') True ''compute(int x)'' (0, 5) (0, 19)
          [Node ''identifier'' (Some ''declarator'') True ''compute'' (0, 5) (0, 12) [],
           Node ''parameter_list'' (Some ''parameters'') True ''(int x)'' (0, 12) (0, 19)
             [token ''('' (0, 12) (0, 13),
              Node ''parameter_declaration'' None True ''int x'' (0, 13) (0, 18)
                [Node ''primitive_type'' (Some ''type'') True ''int'' (0, 13) (0, 16) [],
                 Node ''identifier'' (Some ''declarator'') True ''x'' (0, 17) (0, 18) []],
              token '')'' (0, 18) (0, 19)]]]"

definition cpp_compute_definition :: node where
  "cpp_compute_definition =
     Node ''function_definition'' None True ''int *compute(int x){ return &x; }'' (0, 0) (0, 33)
       [Node ''primitive_type'' (Some ''type'') True ''int'' (0, 0) (0, 3) [],
        cpp_pointer_declarator,
        Node ''compound_statement'' (Some ''body'') True ''{ return &x; }'' (0, 19) (0, 33)
          [token ''{'' (0, 19) (0, 20),
           Node ''return_statement'' None True ''return &x;'' (0, 21) (0, 31)
             [token ''return'' (0, 21) (0, 27),
              Node ''pointer_expression'' None True ''&x'' (0, 28) (0, 30)
                [Node ''&'' (Some ''operator'') False ''&'' (0, 28) (0, 29) [],
                 Node ''identifier'' (Some ''argument'') True ''x'' (0, 29) (0, 30) []],
              token '';'' (0, 30) (0, 31)],
           token ''}'' (0, 32) (0, 33)]]"

definition cpp_compute_tree :: node where
  "cpp_compute_tree =
     Node ''translation_unit'' None True ''int *compute(int x){ return &x; }'' (0, 0) (0, 33)
       [cpp_compute_definition]"


text \<open>
  Java, three lines: \<^verbatim>\<open>class A {\<close>, then indented by two blanks
  \<^verbatim>\<open>public void bar(){}\<close>, then \<^verbatim>\<open>}\<close>.
\<close>

definition java_bar_method :: node where
  "java_bar_method =
     Node ''method_declaration'' None True ''public void bar(){}'' (1, 2) (1, 21)
       [Node ''modifiers'' None True ''public'' (1, 2) (1, 8) [token ''public'' (1, 2) (1, 8)],
        Node ''void_type'' (Some ''type'') True ''void'' (1, 9) (1, 13) [],
        Node ''identifier'' (Some ''name'') True ''bar'' (1, 14) (1, 17) [],
        Node ''formal_parameters'' (Some ''parameters'') True ''()'' (1, 17) (1, 19)
          [token ''('' (1, 17) (1, 18), token '')'' (1, 18) (1, 19)],
        Node ''block'' (Some ''body'') True ''{}'' (1, 19) (1, 21)
          [token ''{'' (1, 19) (1, 20), token ''}'' (1, 20) (1, 21)]]"

definition java_class_tree :: node where
  "java_class_tree =
     Node ''program'' None True (''class A {'' @ nl @ ''  public void bar(){}'' @ nl @ ''}'') (0, 0) (2, 1)
       [Node ''class_declaration'' None True
            (''class A {'' @ nl @ ''  public void bar(){}'' @ nl @ ''}'') (0, 0) (2, 1)
          [token ''class'' (0, 0) (0, 5),
           Node ''identifier'' (Some ''name'') True ''A'' (0, 6) (0, 7) [],
           Node ''class_body'' (Some ''body'') True
               (''{'' @ nl @ ''  public void bar(){}'' @ nl @ ''}'') (0, 8) (2, 1)
             [token ''{'' (0, 8) (0, 9),
              java_bar_method,
              token ''}'' (2, 0) (2, 1)]]]"

text \<open>
  A tree whose node types are the class and method tags of the cpp profile themselves:
  a class node holding one method node.
\<close>

definition tagged_method :: node where
  "tagged_method =
     Node ''void function_name(){'' None True ''void function_name(){ }'' (0, 15) (0, 38) []"

definition tagged_tree :: node where
  "tagged_tree =
     Node ''translation_unit'' None True ''class Example{ void function_name(){ } }'' (0, 0) (0, 40)
       [Node ''class Example{'' None True ''class Example{ void function_name(){ } }'' (0, 0) (0, 40)
          [tagged_method]]"

text \<open>
  The same tags over several lines: a class node (lines 0 to 2) holding a method node on
  line 1, followed by a method node (lines 3 to 5) that holds a method node on line 4.
\<close>

definition tagged_nested_tree :: node where
  "tagged_nested_tree =
     Node ''translation_unit'' None True '''' (0, 0) (5, 1)
       [Node ''class Example{'' None True '''' (0, 0) (2, 1)
          [Node ''void function_name(){'' None True '''' (1, 2) (1, 20) []],
        Node ''void function_name(){'' None True '''' (3, 0) (5, 1)
          [Node ''void function_name(){'' None True '''' (4, 2) (4, 20) []]]"

text \<open>
  Javascript: \<^verbatim>\<open>const a = function(){ const b = 1; }, c = 2;\<close> One statement declares
  \<^verbatim>\<open>a\<close> and \<^verbatim>\<open>c\<close>; the initializer of \<^verbatim>\<open>a\<close> declares \<^verbatim>\<open>b\<close>, which stands between them
  in the text.
\<close>

definition js_declarator_b :: node where
  "js_declarator_b =
     Node ''variable_declarator'' None True ''b = 1'' (0, 28) (0, 33)
       [Node ''identifier'' (Some ''name'') True ''b'' (0, 28) (0, 29) [],
        token ''='' (0, 30) (0, 31),
        Node ''number'' (Some ''value'') True ''1'' (0, 32) (0, 33) []]"

definition js_declarator_a :: node where
  "js_declarator_a =
     Node ''variable_declarator'' None True ''a = function(){ const b = 1; }'' (0, 6) (0, 36)
       [Node ''identifier'' (Some ''name'') True ''a'' (0, 6) (0, 7) [],
        token ''='' (0, 8) (0, 9),
        Node ''function_expression'' (Some ''value'') True ''function(){ const b = 1; }'' (0, 10) (0, 36)
          [token ''function'' (0, 10) (0, 18),
           Node ''formal_parameters'' (Some ''parameters'') True ''()'' (0, 18) (0, 20)
             [token ''('' (0, 18) (0, 19), token '')'' (0, 19) (0, 20)],
           Node ''statement_block'' (Some ''body'') True ''{ const b = 1; }'' (0, 20) (0, 36)
             [token ''{'' (0, 20) (0, 21),
              Node ''lexical_declaration'' None True ''const b = 1;'' (0, 22) (0, 34)
                [Node ''const'' (Some ''kind'') False ''const'' (0, 22) (0, 27) [],
                 js_declarator_b,
                 token '';'' (0, 33) (0, 34)],
              token ''}'' (0, 35) (0, 36)]]]"

definition js_declarator_c :: node where
  "js_declarator_c =
     Node ''variable_declarator'' None True ''c = 2'' (0, 38) (0, 43)
       [Node ''identifier'' (Some ''name'') True ''c'' (0, 38) (0, 39) [],
        token ''='' (0, 40) (0, 41),
        Node ''number'' (Some ''value'') True ''2'' (0, 42) (0, 43) []]"

definition js_nested_declaration_tree :: node where
  "js_nested_declaration_tree =
     Node ''program'' None True ''const a = function(){ const b = 1; }, c = 2;'' (0, 0) (0, 44)
       [Node ''lexical_declaration'' None True
            ''const a = function(){ const b = 1; }, c = 2;'' (0, 0) (0, 44)
          [Node ''const'' (Some ''kind'') False ''const'' (0, 0) (0, 5) [],
           js_declarator_a,
           token '','' (0, 36) (0, 37),
           js_declarator_c,
           token '';'' (0, 43) (0, 44)]]"

text \<open>
  Two nodes of the cpp method tag's type side by side on one line, columns 0 to 10 and
  11 to 21.
\<close>

definition tagged_same_line_tree :: node where
  "tagged_same_line_tree =
     Node ''translation_unit'' None True '''' (0, 0) (0, 21)
       [Node ''void function_name(){'' None True '''' (0, 0) (0, 10) [],
        Node ''void function_name(){'' None True '''' (0, 11) (0, 21) []]"

text \<open>The parsers that \<open>init\<close> builds for the five profiles.\<close>

definition python_parser :: parser where
  "python_parser = \<lparr> language = ''python'', config = python_config \<rparr>"

definition java_parser :: parser where
  "java_parser = \<lparr> language = ''java'', config = java_config \<rparr>"

definition cpp_parser :: parser where
  "cpp_parser = \<lparr> language = ''cpp'', config = cpp_config \<rparr>"

definition c_parser :: parser where
  "c_parser = \<lparr> language = ''c'', config = c_config \<rparr>"

definition javascript_parser :: parser where
  "javascript_parser = \<lparr> language = ''javascript'', config = javascript_config \<rparr>"

section \<open>Constructing a parser\<close>

lemma LANGUAGE_CONFIGS_dom:
  "(LANGUAGE_CONFIGS l = None) = (l \<notin> set [''python'', ''java'', ''cpp'', ''c'', ''javascript''])"
  by (simp add: LANGUAGE_CONFIGS_def)

lemma init_builds_the_five_parsers:
  "init ''python'' None = Inr python_parser \<and> init ''java'' None = Inr java_parser \<and>
   init ''cpp'' None = Inr cpp_parser \<and> init ''c'' None = Inr c_parser \<and>
   init ''javascript'' None = Inr javascript_parser"
  by code_simp

text \<open>
  C2, as the code has it. The constructor looks the lower-cased language id up in the
  profile table. When the lower-cased id is none of \<^verbatim>\<open>python\<close>, \<^verbatim>\<open>java\<close>, \<^verbatim>\<open>cpp\<close>, \<^verbatim>\<open>c\<close>,
  \<^verbatim>\<open>javascript\<close>, construction raises \<^verbatim>\<open>ValueError("Unsupported language: <id>")\<close>, whatever
  tree-sitter would have done. When it is one of the five, construction never raises that
  \<^verbatim>\<open>ValueError\<close>, and it returns the parser of that profile when tree-sitter accepts the
  grammar.
\<close>

theorem init_unsupported_language:
  "(lower lang \<notin> set [''python'', ''java'', ''cpp'', ''c'', ''javascript''] \<longrightarrow>
      init lang set_language = Inl (ValueError (''Unsupported language: '' @ lang))) \<and>
   (lower lang \<in> set [''python'', ''java'', ''cpp'', ''c'', ''javascript''] \<longrightarrow>
      (\<forall>m. init lang set_language \<noteq> Inl (ValueError m)) \<and>
      (\<exists>cfg. LANGUAGE_CONFIGS (lower lang) = Some cfg \<and>
             init lang None = Inr \<lparr> language = lower lang, config = cfg \<rparr>))"
proof (intro conjI impI)
  assume "lower lang \<notin> set [''python'', ''java'', ''cpp'', ''c'', ''javascript'']"
  then have "LANGUAGE_CONFIGS (lower lang) = None"
    by (simp add: LANGUAGE_CONFIGS_dom)
  then show "init lang set_language = Inl (ValueError (''Unsupported language: '' @ lang))"
    by (simp add: init_def)
next
  assume "lower lang \<in> set [''python'', ''java'', ''cpp'', ''c'', ''javascript'']"
  then have "LANGUAGE_CONFIGS (lower lang) \<noteq> None"
    by (simp add: LANGUAGE_CONFIGS_dom)
  then obtain cfg where cfg: "LANGUAGE_CONFIGS (lower lang) = Some cfg"
    by blast
  show "\<forall>m. init lang set_language \<noteq> Inl (ValueError m)"
    using cfg by (cases set_language) (simp_all add: init_def initialize_parser_def)
  show "\<exists>cfg. LANGUAGE_CONFIGS (lower lang) = Some cfg \<and>
             init lang None = Inr \<lparr> language = lower lang, config = cfg \<rparr>"
    using cfg by (simp add: init_def initialize_parser_def)
qed

text \<open>The theorem at \<^verbatim>\<open>ruby\<close> (refused) and at \<^verbatim>\<open>Java\<close> (accepted as the java profile).\<close>

theorem init_unsupported_language_witness:
  "lower ''ruby'' \<notin> set [''python'', ''java'', ''cpp'', ''c'', ''javascript''] \<and>
   init ''ruby'' None = Inl (ValueError ''Unsupported language: ruby'') \<and>
   lower ''Java'' \<in> set [''python'', ''java'', ''cpp'', ''c'', ''javascript''] \<and>
   (\<forall>m. init ''Java'' None \<noteq> Inl (ValueError m)) \<and>
   init ''Java'' None = Inr java_parser"
proof -
  have a: "lower ''ruby'' \<notin> set [''python'', ''java'', ''cpp'', ''c'', ''javascript'']"
    by code_simp
  have b: "lower ''Java'' \<in> set [''python'', ''java'', ''cpp'', ''c'', ''javascript'']"
    by code_simp
  have c: "init ''Java'' None = Inr java_parser"
    by code_simp
  from a init_unsupported_language [of "''ruby''" None]
  have "init ''ruby'' None = Inl (ValueError ''Unsupported language: ruby'')"
    by simp
  moreover from b init_unsupported_language [of "''Java''" None]
  have "\<forall>m. init ''Java'' None \<noteq> Inl (ValueError m)"
    by blast
  ultimately show ?thesis
    using a b c by blast
qed

text \<open>
  C2 as it is worded fails: the id \<^verbatim>\<open>Python\<close> is none of the five registered ids, and
  \<^verbatim>\<open>MultiLanguageParser("Python")\<close> is built without any error, as the python parser.
\<close>

theorem init_accepts_other_spelling:
  "''Python'' \<notin> set [''python'', ''java'', ''cpp'', ''c'', ''javascript''] \<and>
   init ''Python'' None = Inr python_parser"
  by code_simp

section \<open>The scenarios\<close>

text \<open>
  C7. For the javascript source \<^verbatim>\<open>const a = 5;\<close> the parser that the constructor builds
  for \<^verbatim>\<open>javascript\<close> returns exactly one variable record, with name \<^verbatim>\<open>a\<close> and value \<^verbatim>\<open>5\<close>
  (and nothing else).
\<close>

theorem javascript_const_variable:
  "init ''javascript'' None = Inr javascript_parser \<and>
   parse javascript_parser (Tree js_const_tree) =
     Inr \<lparr> res_imports = [], res_classes = [], res_functions = [],
           res_variables = [[(''name'', ''a''), (''value'', ''5'')]] \<rparr>"
  by code_simp

text \<open>
  C4 does not hold of the code. For the python source of the scenario the parser returns
  no callable at all: the function node has type \<^verbatim>\<open>function_definition\<close>, and the python
  profile looks for the type \<^verbatim>\<open>def_statement\<close>. Even on the function node itself the
  documentation lookup finds nothing, since it looks for the string statement among the
  node's own children and the statement sits one level deeper, in the body block.
\<close>

theorem python_def_not_extracted:
  "init ''python'' None = Inr python_parser \<and>
   parse python_parser (Tree py_def_tree) =
     Inr \<lparr> res_imports = [], res_classes = [], res_functions = [], res_variables = [] \<rparr> \<and>
   find_docstring python_parser None (hd (children py_def_tree)) = Inr ''''"
  by code_simp

text \<open>
  C5 does not hold of the code. For \<^verbatim>\<open>int *compute(int x){ return &x; }\<close> the declarator
  of the definition is a \<^verbatim>\<open>pointer_declarator\<close> around the \<^verbatim>\<open>function_declarator\<close>;
  \<^verbatim>\<open>_extract_name\<close> only looks inside a node that is itself a \<^verbatim>\<open>function_declarator\<close>, so
  the resolved name is the whole declarator text. (The definition is not listed by
  \<^verbatim>\<open>parse\<close> either: its type is not the method tag of the cpp profile.)
\<close>

theorem cpp_pointer_declarator_name:
  "child_by_field_name cpp_compute_definition (name_field (config cpp_parser)) =
     Some cpp_pointer_declarator \<and>
   extract_name cpp_parser (Some cpp_pointer_declarator) = ''*compute(int x)'' \<and>
   parse cpp_parser (Tree cpp_compute_tree) =
     Inr \<lparr> res_imports = [], res_classes = [], res_functions = [], res_variables = [] \<rparr>"
  by code_simp

section \<open>Which nodes the traversals record\<close>

lemma visit_import_preorder:
  "visit_import self t =
     map import_of (filter (\<lambda>n. node_type n \<in> set (import_identifiers (config self))) (preorder t))"
  "visit_import_children self cs =
     map import_of (filter (\<lambda>n. node_type n \<in> set (import_identifiers (config self)))
                      (preorder_children cs))"
  by (induction self t and self cs rule: visit_import_visit_import_children.induct)
     (simp_all add: import_of_def)

lemma visit_variable_preorder:
  "visit_variable self t = concat (map (variables_at self) (preorder t))"
  "visit_variable_children self cs = concat (map (variables_at self) (preorder_children cs))"
  by (induction self t and self cs rule: visit_variable_visit_variable_children.induct) simp_all






section \<open>Failures of \<^verbatim>\<open>parse\<close>\<close>




section \<open>Name resolution\<close>

text \<open>
  C9, as the code has it. When a node has no child under the name field of the profile,
  the field lookup returns \<^verbatim>\<open>None\<close> and \<^verbatim>\<open>_extract_name(None)\<close> returns the empty
  string: a function or class record made for that node (the first record of the node's
  traversal, when the extraction does not fail) has the empty string as its name.
\<close>

theorem absent_name_field_gives_empty_name:
  "child_by_field_name node (name_field (config self)) = None \<Longrightarrow>
   extract_name self (child_by_field_name node (name_field (config self))) = '''' \<and>
   (str_eq_pyval (node_type node) (method_identifier (config self)) \<longrightarrow>
      visit_function self prev node = Inr fs \<longrightarrow> fs \<noteq> [] \<and> name (hd fs) = '''') \<and>
   (node_type node = class_identifier (config self) \<longrightarrow>
      visit_class self prev node = Inr cs \<longrightarrow> cs \<noteq> [] \<and> class_name (hd cs) = '''')"
proof (intro conjI impI)
  assume a: "child_by_field_name node (name_field (config self)) = None"
  show "extract_name self (child_by_field_name node (name_field (config self))) = ''''"
    using a by (simp add: extract_name_def)
  {
    assume "str_eq_pyval (node_type node) (method_identifier (config self))"
      and "visit_function self prev node = Inr fs"
    then show "fs \<noteq> []" and "name (hd fs) = ''''"
      using a by (cases node; auto simp: extract_name_def split: sum.splits)+
  }
  {
    assume "node_type node = class_identifier (config self)"
      and "visit_class self prev node = Inr cs"
    then show "cs \<noteq> []" and "class_name (hd cs) = ''''"
      using a by (cases node; auto simp: extract_name_def split: sum.splits)+
  }
qed

text \<open>
  The theorem at the python keyword token \<^verbatim>\<open>class\<close> (a node of the class tag's type) and
  at a node of the cpp method tag's type; neither has a child under the name field.
\<close>

theorem absent_name_field_gives_empty_name_witness:
  "child_by_field_name py_class_keyword (name_field (config python_parser)) = None \<and>
   node_type py_class_keyword = class_identifier (config python_parser) \<and>
   (\<exists>cs. visit_class python_parser None py_class_keyword = Inr cs \<and>
         cs \<noteq> [] \<and> class_name (hd cs) = '''') \<and>
   child_by_field_name tagged_method (name_field (config cpp_parser)) = None \<and>
   str_eq_pyval (node_type tagged_method) (method_identifier (config cpp_parser)) \<and>
   (\<exists>fs. visit_function cpp_parser None tagged_method = Inr fs \<and>
         fs \<noteq> [] \<and> name (hd fs) = '''')"
proof -
  have a: "child_by_field_name py_class_keyword (name_field (config python_parser)) = None"
    by code_simp
  have b: "node_type py_class_keyword = class_identifier (config python_parser)"
    by code_simp
  have c: "visit_class python_parser None py_class_keyword =
     Inr [\<lparr> class_name = '''', docstring = '''', methods = [],
             class_start_point = (0, 0), class_end_point = (0, 5) \<rparr>]"
    by code_simp
  have d: "child_by_field_name tagged_method (name_field (config cpp_parser)) = None"
    by code_simp
  have e: "str_eq_pyval (node_type tagged_method) (method_identifier (config cpp_parser))"
    by code_simp
  have f: "visit_function cpp_parser None tagged_method =
     Inr [\<lparr> name = '''', doc_comment = '''', method_source_code = ''void function_name(){ }'',
             start_line = 0, end_line = 0 \<rparr>]"
    by code_simp
  from absent_name_field_gives_empty_name [OF a, where prev = None] b c
  have g: "\<exists>cs. visit_class python_parser None py_class_keyword = Inr cs \<and>
         cs \<noteq> [] \<and> class_name (hd cs) = ''''"
    by blast
  from absent_name_field_gives_empty_name [OF d, where prev = None] e f
  have h: "\<exists>fs. visit_function cpp_parser None tagged_method = Inr fs \<and>
         fs \<noteq> [] \<and> name (hd fs) = ''''"
    by blast
  from a b d e g h show ?thesis
    by blast
qed

text \<open>
  C9 as it is worded fails: the keyword token \<^verbatim>\<open>class\<close> of \<^verbatim>\<open>class A:\<close> has no name
  field and its text is \<^verbatim>\<open>class\<close>, yet the name resolved for it, and the name of the
  class record that \<^verbatim>\<open>parse\<close> returns for it, is the empty string.
\<close>

theorem absent_name_is_not_node_text:
  "child_by_field_name py_class_keyword (name_field (config python_parser)) = None \<and>
   node_text py_class_keyword = ''class'' \<and>
   extract_name python_parser
     (child_by_field_name py_class_keyword (name_field (config python_parser))) = '''' \<and>
   extract_classes python_parser None py_class_keyword =
     Inr [\<lparr> class_name = '''', docstring = '''', methods = [],
             class_start_point = (0, 0), class_end_point = (0, 5) \<rparr>]"
  by code_simp

section \<open>Documentation lookup\<close>

text \<open>
  The lookup by the previous sibling, as the parsers of the other languages and
  \<^verbatim>\<open>JavaParser\<close> do it: one node is read, and its text is the documentation when its type
  is the docstring type of the profile (\<^verbatim>\<open>comment\<close> for \<^verbatim>\<open>JavaParser\<close>).
\<close>

lemma find_docstring_by_previous_sibling:
  "language self \<noteq> ''python'' \<Longrightarrow>
     find_docstring self prev node =
       Inr (case prev of
              None \<Rightarrow> ''''
            | Some p \<Rightarrow> if node_type p = docstring_type (config self) then node_text p else '''')"
  "java_extract_doc_comment prev =
     (case prev of
        None \<Rightarrow> ''''
      | Some p \<Rightarrow> if node_type p = ''comment'' then node_text p else '''')"
  by (simp_all add: find_docstring_def comment_style_doc_def java_extract_doc_comment_def
        split: option.splits)

text \<open>
  C8 does not hold of the code for python. In the tree of the python source
  \<^verbatim>\<open>def foo():\<close> / \<^verbatim>\<open>"""doc"""\<close> / \<^verbatim>\<open>return 1\<close> the definition node has the children
  \<^verbatim>\<open>def\<close>, the name, the parameters, the colon and the body block, and the first statement
  of the body is the string \<^verbatim>\<open>"""doc"""\<close>. \<^verbatim>\<open>_find_docstring\<close> looks for a string statement
  among the children of the definition node itself, finds none, goes on to the previous
  sibling, of which there is none, and returns the empty string: the first statement of
  the body, the one node the leading-literal strategy is to read, is never read.
\<close>

theorem python_docstring_in_body_not_found:
  "py_def_tree = Node ''module'' None True py_def_source (0, 0) (2, 12) [py_def_function] \<and>
   map node_type (children py_def_function) =
     [''def'', ''identifier'', ''parameters'', '':'', ''block''] \<and>
   child_by_field_name py_def_function ''body'' = Some py_def_body \<and>
   map node_type (children py_def_body) = [''expression_statement'', ''return_statement''] \<and>
   map node_type (children (hd (children py_def_body))) = [''string''] \<and>
   node_text (hd (children py_def_body)) = dq @ dq @ dq @ ''doc'' @ dq @ dq @ dq \<and>
   find_docstring python_parser None py_def_function = Inr ''''"
  by code_simp

section \<open>Methods and file-level functions\<close>

lemma methods_subset_functions:
  "visit_class self prev t = Inr cls \<Longrightarrow> visit_function self prev t = Inr fns \<Longrightarrow>
     \<forall>c \<in> set cls. set (methods c) \<subseteq> set fns"
  "visit_class_children self prev cs = Inr cls \<Longrightarrow> visit_function_children self prev cs = Inr fns \<Longrightarrow>
     \<forall>c \<in> set cls. set (methods c) \<subseteq> set fns"
proof (induction self prev t and self prev cs arbitrary: cls fns and cls fns
       rule: visit_class_visit_class_children.induct)
  case (1 self prev ty fld nm tx sp ep cs)
  let ?n = "Node ty fld nm tx sp ep cs"
  from 1(2) obtain here below where
    h: "(if ty = class_identifier (config self) then
              (case find_docstring self prev ?n of
                 Inl e \<Rightarrow> Inl e
               | Inr doc \<Rightarrow>
                   (case extract_functions self prev ?n of
                      Inl e \<Rightarrow> Inl e
                    | Inr ms \<Rightarrow> Inr [\<lparr> class_name = extract_name self
                                             (child_by_field_name ?n (name_field (config self))),
                                       docstring = doc,
                                       methods = ms,
                                       class_start_point = sp,
                                       class_end_point = ep \<rparr>]))
            else Inr []) = Inr here"
    and b: "visit_class_children self None cs = Inr below"
    and cls: "cls = here @ below"
    by (auto split: sum.splits simp del: visit_function.simps)
  from 1(3) obtain fhere fbelow where
    fb: "visit_function_children self None cs = Inr fbelow" and fns: "fns = fhere @ fbelow"
    by (auto split: sum.splits)
  have "\<forall>c \<in> set below. set (methods c) \<subseteq> set fbelow"
    using 1(1) [OF h b fb] .
  then have A: "\<forall>c \<in> set below. set (methods c) \<subseteq> set fns"
    using fns by auto
  have B: "\<forall>c \<in> set here. methods c = fns"
    using h 1(3) by (auto simp: extract_functions_def split: if_splits sum.splits simp del: visit_function.simps)
  show ?case using A B cls by auto
next
  case (2 self prev)
  then show ?case by simp
next
  case (3 self prev child rest)
  from 3(3) obtain first later where
    a: "visit_class self prev child = Inr first" and
    b: "visit_class_children self (if is_named child then Some child else prev) rest = Inr later" and
    cls: "cls = first @ later"
    by (auto split: sum.splits)
  from 3(4) obtain ffirst flater where
    fa: "visit_function self prev child = Inr ffirst" and
    fb: "visit_function_children self (if is_named child then Some child else prev) rest = Inr flater" and
    fns: "fns = ffirst @ flater"
    by (auto split: sum.splits)
  have "\<forall>c \<in> set first. set (methods c) \<subseteq> set ffirst"
    using 3(1) [OF a fa] .
  moreover have "\<forall>c \<in> set later. set (methods c) \<subseteq> set flater"
    using 3(2) [OF a b fb] .
  ultimately show ?case using cls fns by auto
qed

lemma java_methods_subset_functions:
  "\<forall>c \<in> set (java_visit_class prev t). set (jc_methods c) \<subseteq> set (visit_method prev t)"
  "\<forall>c \<in> set (java_visit_class_children prev cs). set (jc_methods c) \<subseteq> set (visit_method_children prev cs)"
proof (induction prev t and prev cs rule: java_visit_class_java_visit_class_children.induct)
  case (1 prev ty fld nm tx sp ep cs)
  let ?n = "Node ty fld nm tx sp ep cs"
  have below: "\<forall>c \<in> set (java_visit_class_children None cs). set (jc_methods c) \<subseteq> set (visit_method prev ?n)"
  proof
    fix c assume "c \<in> set (java_visit_class_children None cs)"
    with 1 have "set (jc_methods c) \<subseteq> set (visit_method_children None cs)"
      by blast
    moreover have "set (visit_method_children None cs) \<subseteq> set (visit_method prev ?n)"
      by (simp only: visit_method.simps set_append) blast
    ultimately show "set (jc_methods c) \<subseteq> set (visit_method prev ?n)"
      by blast
  qed
  show ?case
  proof
    fix c assume c: "c \<in> set (java_visit_class prev ?n)"
    show "set (jc_methods c) \<subseteq> set (visit_method prev ?n)"
    proof (cases "c \<in> set (java_visit_class_children None cs)")
      case True
      then show ?thesis using below by blast
    next
      case False
      with c have "jc_methods c = java_extract_methods prev ?n"
        by (cases "identifier_child ?n"; cases "ty = ''class_declaration''") simp_all
      then show ?thesis
        by (simp only: java_extract_methods_def)
    qed
  qed
next
  case (2 prev)
  then show ?case by simp
next
  case (3 prev child rest)
  then show ?case by auto
qed

text \<open>
  C1, as the code has it. Both parsers run the function traversal over the whole tree and
  run it again, for every class, over the class node: whenever \<^verbatim>\<open>parse\<close> returns a
  result, every record in the \<^verbatim>\<open>methods\<close> list of one of its \<^verbatim>\<open>classes\<close> entries is also
  a record of its \<^verbatim>\<open>functions\<close> list, and the same holds of \<^verbatim>\<open>JavaParser.parse_code\<close>.
\<close>

theorem methods_also_file_level:
  "(parse self (Tree t) = Inr r \<longrightarrow>
      (\<forall>c \<in> set (res_classes r). set (methods c) \<subseteq> set (res_functions r))) \<and>
   (\<forall>c \<in> set (java_classes (parse_code t)). set (jc_methods c) \<subseteq> set (java_functions (parse_code t)))"
proof (intro conjI impI)
  assume "parse self (Tree t) = Inr r"
  then obtain cls fns where c: "visit_class self None t = Inr cls"
    and f: "visit_function self None t = Inr fns"
    and r: "res_classes r = cls" "res_functions r = fns"
    by (auto simp: parse_def extract_classes_def extract_functions_def split: sum.splits)
  show "\<forall>c \<in> set (res_classes r). set (methods c) \<subseteq> set (res_functions r)"
    using methods_subset_functions(1) [OF c f] r by simp
next
  show "\<forall>c \<in> set (java_classes (parse_code t)). set (jc_methods c) \<subseteq> set (java_functions (parse_code t))"
    using java_methods_subset_functions(1) [of None t]
    by (simp add: parse_code_def java_extract_classes_def java_extract_methods_def)
qed

text \<open>
  The theorem at the cpp parser with a class node that holds a method node, and at
  \<^verbatim>\<open>JavaParser\<close> with the tree of a class that declares the method \<^verbatim>\<open>bar\<close>: in both
  results the class has a method, and it is a file-level function as well.
\<close>

theorem methods_also_file_level_witness:
  "(\<exists>r c m. parse cpp_parser (Tree tagged_tree) = Inr r \<and> c \<in> set (res_classes r) \<and>
            m \<in> set (methods c) \<and> m \<in> set (res_functions r)) \<and>
   (\<exists>c m. c \<in> set (java_classes (parse_code java_class_tree)) \<and> m \<in> set (jc_methods c) \<and>
          jm_name m = ''bar'' \<and> m \<in> set (java_functions (parse_code java_class_tree)))"
proof -
  define m where "m = \<lparr> name = '''', doc_comment = '''',
      method_source_code = ''void function_name(){ }'', start_line = 0, end_line = 0 \<rparr>"
  define c where "c = \<lparr> class_name = '''', docstring = '''', methods = [m],
      class_start_point = (0, 0), class_end_point = (0, 40) \<rparr>"
  define r where "r = \<lparr> res_imports = [], res_classes = [c], res_functions = [m],
      res_variables = [] \<rparr>"
  have p: "parse cpp_parser (Tree tagged_tree) = Inr r"
    unfolding r_def c_def m_def by code_simp
  from p methods_also_file_level [of cpp_parser tagged_tree r]
  have "\<forall>c \<in> set (res_classes r). set (methods c) \<subseteq> set (res_functions r)"
    by blast
  moreover have "c \<in> set (res_classes r)" "m \<in> set (methods c)"
    by (simp_all add: r_def c_def)
  ultimately have A: "\<exists>r c m. parse cpp_parser (Tree tagged_tree) = Inr r \<and> c \<in> set (res_classes r) \<and>
            m \<in> set (methods c) \<and> m \<in> set (res_functions r)"
    using p by blast
  define jm where "jm = \<lparr> jm_name = ''bar'', jm_source_code = ''public void bar(){}'',
      jm_doc_comment = '''', jm_start_point = (1, 2), jm_end_point = (1, 21),
      jm_parameters = [], jm_return_type = ''void'' \<rparr>"
  define jc where "jc = \<lparr> jc_name = ''A'', jc_methods = [jm], jc_doc_comment = '''', jc_fields = [] \<rparr>"
  have jcs: "java_classes (parse_code java_class_tree) = [jc]"
    unfolding jc_def jm_def by code_simp
  from methods_also_file_level [of _ java_class_tree]
  have "\<forall>c \<in> set (java_classes (parse_code java_class_tree)).
          set (jc_methods c) \<subseteq> set (java_functions (parse_code java_class_tree))"
    by blast
  moreover have "jc \<in> set (java_classes (parse_code java_class_tree))" "jm \<in> set (jc_methods jc)"
    "jm_name jm = ''bar''"
    by (simp_all add: jcs jc_def jm_def)
  ultimately have B: "\<exists>c m. c \<in> set (java_classes (parse_code java_class_tree)) \<and> m \<in> set (jc_methods c) \<and>
          jm_name m = ''bar'' \<and> m \<in> set (java_functions (parse_code java_class_tree))"
    by blast
  from A B show ?thesis
    by blast
qed

text \<open>
  C1 as it is worded fails. For the java source \<^verbatim>\<open>class A { public void bar(){} }\<close>
  (over three lines) \<^verbatim>\<open>JavaParser.parse_code\<close> lists the method \<^verbatim>\<open>bar\<close> among the methods
  of class \<^verbatim>\<open>A\<close> and among the file-level functions. \<^verbatim>\<open>MultiLanguageParser.parse\<close> does the
  same on a tree in which a node of the class tag's type holds a node of the method tag's
  type.
\<close>

theorem method_listed_twice:
  "parse_code java_class_tree =
     \<lparr> java_imports = [], java_package = '''',
       java_classes =
         [\<lparr> jc_name = ''A'',
            jc_methods =
              [\<lparr> jm_name = ''bar'', jm_source_code = ''public void bar(){}'',
                 jm_doc_comment = '''', jm_start_point = (1, 2), jm_end_point = (1, 21),
                 jm_parameters = [], jm_return_type = ''void'' \<rparr>],
            jc_doc_comment = '''', jc_fields = [] \<rparr>],
       java_functions =
         [\<lparr> jm_name = ''bar'', jm_source_code = ''public void bar(){}'',
            jm_doc_comment = '''', jm_start_point = (1, 2), jm_end_point = (1, 21),
            jm_parameters = [], jm_return_type = ''void'' \<rparr>],
       java_interfaces = [] \<rparr> \<and>
   parse cpp_parser (Tree tagged_tree) =
     Inr \<lparr> res_imports = [],
           res_classes =
             [\<lparr> class_name = '''', docstring = '''',
                methods = [\<lparr> name = '''', doc_comment = '''',
                              method_source_code = ''void function_name(){ }'',
                              start_line = 0, end_line = 0 \<rparr>],
                class_start_point = (0, 0), class_end_point = (0, 40) \<rparr>],
           res_functions =
             [\<lparr> name = '''', doc_comment = '''',
                method_source_code = ''void function_name(){ }'',
                start_line = 0, end_line = 0 \<rparr>],
           res_variables = [] \<rparr>"
  by code_simp

section \<open>Spans and document order\<close>

lemma spans_in_order_Nil: "spans_in_order lo hi []"
  by (simp add: spans_in_order_def)

lemma spans_in_order_mono:
  "spans_in_order lo hi xs \<Longrightarrow> lo' \<le> lo \<Longrightarrow> hi \<le> hi' \<Longrightarrow> spans_in_order lo' hi' xs"
  unfolding spans_in_order_def by (meson order_trans)

lemma spans_in_order_append:
  assumes "spans_in_order lo mid xs" and "spans_in_order mid hi ys"
    and "lo \<le> mid" and "mid \<le> hi"
  shows "spans_in_order lo hi (xs @ ys)"
proof -
  have x: "\<forall>x \<in> set xs. lo \<le> fst x \<and> fst x \<le> snd x \<and> snd x \<le> mid"
    using assms(1) by (simp add: spans_in_order_def)
  have y: "\<forall>y \<in> set ys. mid \<le> fst y \<and> fst y \<le> snd y \<and> snd y \<le> hi"
    using assms(2) by (simp add: spans_in_order_def)
  have cross: "\<forall>x \<in> set xs. \<forall>y \<in> set ys. fst x \<le> fst y \<and> snd x \<le> fst y"
    using x y by (meson order_trans)
  have bounds: "\<forall>z \<in> set (xs @ ys). lo \<le> fst z \<and> fst z \<le> snd z \<and> snd z \<le> hi"
    using x y assms(3,4) by (auto intro: order_trans)
  have srt: "sorted (map fst (xs @ ys))"
    using assms(1,2) cross by (auto simp: spans_in_order_def sorted_append)
  have lam: "sorted_wrt (\<lambda>a b. snd a \<le> fst b \<or> snd b \<le> snd a) (xs @ ys)"
    using assms(1,2) cross by (auto simp: spans_in_order_def sorted_wrt_append)
  show ?thesis
    unfolding spans_in_order_def using bounds srt lam by blast
qed

lemma spans_in_order_Cons:
  assumes "spans_in_order lo hi ys" and "lo \<le> hi"
  shows "spans_in_order lo hi ((lo, hi) # ys)"
  using assms by (auto simp: spans_in_order_def)

lemma point_le_fst: "(p :: point) \<le> q \<Longrightarrow> fst p \<le> fst q"
  by (cases p; cases q) auto

lemma function_spans:
  "wf_node t \<Longrightarrow> visit_function self prev t = Inr fs \<Longrightarrow>
     spans_in_order (fst (start_point t)) (fst (end_point t)) (map method_span fs)"
  "wf_children lo hi cs \<Longrightarrow> visit_function_children self prev cs = Inr fs \<Longrightarrow>
     spans_in_order (fst lo) (fst hi) (map method_span fs)"
proof (induction self prev t and self prev cs arbitrary: fs and lo hi fs
       rule: visit_function_visit_function_children.induct)
  case (1 self prev ty fld nm tx sp ep cs)
  from 1(3) obtain here below where
    h: "(if str_eq_pyval ty (method_identifier (config self)) then
              (case find_docstring self prev (Node ty fld nm tx sp ep cs) of
                 Inl e \<Rightarrow> Inl e
               | Inr doc \<Rightarrow> Inr [\<lparr> name = extract_name self
                                         (child_by_field_name (Node ty fld nm tx sp ep cs)
                                            (name_field (config self))),
                                   doc_comment = doc,
                                   method_source_code = tx,
                                   start_line = fst sp,
                                   end_line = fst ep \<rparr>])
            else Inr []) = Inr here"
    and b: "visit_function_children self None cs = Inr below"
    and fs: "fs = here @ below"
    by (auto split: sum.splits)
  from 1(2) have sp_ep: "sp \<le> ep" and wc: "wf_children sp ep cs"
    by simp_all
  have inner: "spans_in_order (fst sp) (fst ep) (map method_span below)"
    using 1(1) [OF h wc b] .
  have rows: "fst sp \<le> fst ep"
    using sp_ep by (rule point_le_fst)
  have "map method_span here = [] \<or> map method_span here = [(fst sp, fst ep)]"
    using h by (auto simp: method_span_def split: if_splits sum.splits)
  then have "spans_in_order (fst sp) (fst ep) (map method_span here @ map method_span below)"
    using inner rows spans_in_order_Cons [OF inner rows] by auto
  then show ?case
    using fs by simp
next
  case (2 self prev)
  then show ?case by (simp add: spans_in_order_Nil)
next
  case (3 self prev child rest)
  from 3(4) obtain first later where
    a: "visit_function self prev child = Inr first" and
    b: "visit_function_children self (if is_named child then Some child else prev) rest = Inr later" and
    fs: "fs = first @ later"
    by (auto split: sum.splits)
  from 3(3) have lo: "lo \<le> start_point child" and hi: "end_point child \<le> hi"
    and wn: "wf_node child" and wc: "wf_children (end_point child) hi rest"
    by simp_all
  have se: "start_point child \<le> end_point child"
    using wn by (cases child) simp
  have one: "spans_in_order (fst (start_point child)) (fst (end_point child)) (map method_span first)"
    using 3(1) [OF wn a] .
  have two: "spans_in_order (fst (end_point child)) (fst hi) (map method_span later)"
    using 3(2) [OF a wc b] .
  have one': "spans_in_order (fst lo) (fst (end_point child)) (map method_span first)"
    using one point_le_fst [OF lo] by (rule spans_in_order_mono) simp
  have "fst lo \<le> fst (end_point child)"
    using point_le_fst [OF lo] point_le_fst [OF se] by simp
  then have "spans_in_order (fst lo) (fst hi) (map method_span first @ map method_span later)"
    using one' two point_le_fst [OF hi] by (intro spans_in_order_append) auto
  then show ?case
    using fs by simp
qed

lemma class_spans:
  "wf_node t \<Longrightarrow> visit_class self prev t = Inr cls \<Longrightarrow>
     spans_in_order (start_point t) (end_point t) (map class_span cls) \<and>
     (\<forall>c \<in> set cls. spans_in_order (fst (class_start_point c)) (fst (class_end_point c))
                         (map method_span (methods c)))"
  "wf_children lo hi cs \<Longrightarrow> visit_class_children self prev cs = Inr cls \<Longrightarrow>
     spans_in_order lo hi (map class_span cls) \<and>
     (\<forall>c \<in> set cls. spans_in_order (fst (class_start_point c)) (fst (class_end_point c))
                         (map method_span (methods c)))"
proof (induction self prev t and self prev cs arbitrary: cls and lo hi cls
       rule: visit_class_visit_class_children.induct)
  case (1 self prev ty fld nm tx sp ep cs)
  let ?n = "Node ty fld nm tx sp ep cs"
  from 1(3) obtain here below where
    h: "(if ty = class_identifier (config self) then
              (case find_docstring self prev ?n of
                 Inl e \<Rightarrow> Inl e
               | Inr doc \<Rightarrow>
                   (case extract_functions self prev ?n of
                      Inl e \<Rightarrow> Inl e
                    | Inr ms \<Rightarrow> Inr [\<lparr> class_name = extract_name self
                                             (child_by_field_name ?n (name_field (config self))),
                                       docstring = doc,
                                       methods = ms,
                                       class_start_point = sp,
                                       class_end_point = ep \<rparr>]))
            else Inr []) = Inr here"
    and b: "visit_class_children self None cs = Inr below"
    and cls: "cls = here @ below"
    by (auto split: sum.splits simp del: visit_function.simps)
  from 1(2) have sp_ep: "sp \<le> ep" and wc: "wf_children sp ep cs"
    by simp_all
  have inner: "spans_in_order sp ep (map class_span below)"
    and inner_m: "\<forall>c \<in> set below. spans_in_order (fst (class_start_point c))
                     (fst (class_end_point c)) (map method_span (methods c))"
    using 1(1) [OF h wc b] by simp_all
  have "map class_span here = [] \<or> map class_span here = [(sp, ep)]"
    using h by (auto simp: class_span_def split: if_splits sum.splits simp del: visit_function.simps)
  then have A: "spans_in_order sp ep (map class_span here @ map class_span below)"
    using inner spans_in_order_Cons [OF inner sp_ep] by auto
  have B: "\<forall>c \<in> set here. spans_in_order (fst (class_start_point c))
                     (fst (class_end_point c)) (map method_span (methods c))"
  proof
    fix c assume c: "c \<in> set here"
    with h obtain ms where ms: "visit_function self prev ?n = Inr ms"
      and c_eq: "methods c = ms" "class_start_point c = sp" "class_end_point c = ep"
      by (auto simp: extract_functions_def split: if_splits sum.splits simp del: visit_function.simps)
    have "spans_in_order (fst (start_point ?n)) (fst (end_point ?n)) (map method_span ms)"
      using 1(2) ms by (rule function_spans(1))
    then show "spans_in_order (fst (class_start_point c)) (fst (class_end_point c))
                 (map method_span (methods c))"
      using c_eq by simp
  qed
  show ?case
    using A B inner_m cls by auto
next
  case (2 self prev)
  then show ?case by (simp add: spans_in_order_Nil)
next
  case (3 self prev child rest)
  from 3(4) obtain first later where
    a: "visit_class self prev child = Inr first" and
    b: "visit_class_children self (if is_named child then Some child else prev) rest = Inr later" and
    cls: "cls = first @ later"
    by (auto split: sum.splits)
  from 3(3) have lo: "lo \<le> start_point child" and hi: "end_point child \<le> hi"
    and wn: "wf_node child" and wc: "wf_children (end_point child) hi rest"
    by simp_all
  have se: "start_point child \<le> end_point child"
    using wn by (cases child) simp
  have one: "spans_in_order (start_point child) (end_point child) (map class_span first)"
    and one_m: "\<forall>c \<in> set first. spans_in_order (fst (class_start_point c))
                     (fst (class_end_point c)) (map method_span (methods c))"
    using 3(1) [OF wn a] by simp_all
  have two: "spans_in_order (end_point child) hi (map class_span later)"
    and two_m: "\<forall>c \<in> set later. spans_in_order (fst (class_start_point c))
                     (fst (class_end_point c)) (map method_span (methods c))"
    using 3(2) [OF a wc b] by simp_all
  have one': "spans_in_order lo (end_point child) (map class_span first)"
    using one lo by (rule spans_in_order_mono) simp
  have "lo \<le> end_point child"
    using lo se by (rule order_trans)
  then have "spans_in_order lo hi (map class_span first @ map class_span later)"
    using one' two hi by (intro spans_in_order_append) auto
  then show ?case
    using cls one_m two_m by auto
qed

lemma preorder_spans:
  "wf_node t \<Longrightarrow> spans_in_order (start_point t) (end_point t) (map node_span (preorder t))"
  "wf_children lo hi cs \<Longrightarrow> spans_in_order lo hi (map node_span (preorder_children cs))"
proof (induction t and cs arbitrary: and lo hi rule: preorder_preorder_children.induct)
  case (1 ty fld nm tx sp ep cs)
  from 1(2) have sp_ep: "sp \<le> ep" and wc: "wf_children sp ep cs"
    by simp_all
  have inner: "spans_in_order sp ep (map node_span (preorder_children cs))"
    using 1(1) [OF wc] .
  have "node_span (Node ty fld nm tx sp ep cs) = (sp, ep)"
    by (simp add: node_span_def)
  then show ?case
    using spans_in_order_Cons [OF inner sp_ep] by simp
next
  case 2
  then show ?case by (simp add: spans_in_order_Nil)
next
  case (3 child rest)
  from 3(3) have lo: "lo \<le> start_point child" and hi: "end_point child \<le> hi"
    and wn: "wf_node child" and wc: "wf_children (end_point child) hi rest"
    by simp_all
  have se: "start_point child \<le> end_point child"
    using wn by (cases child) simp
  have one: "spans_in_order (start_point child) (end_point child) (map node_span (preorder child))"
    using 3(1) [OF wn] .
  have two: "spans_in_order (end_point child) hi (map node_span (preorder_children rest))"
    using 3(2) [OF wc] .
  have one': "spans_in_order lo (end_point child) (map node_span (preorder child))"
    using one lo by (rule spans_in_order_mono) simp
  have "lo \<le> end_point child"
    using lo se by (rule order_trans)
  then have "spans_in_order lo hi
      (map node_span (preorder child) @ map node_span (preorder_children rest))"
    using one' two hi by (intro spans_in_order_append) auto
  then show ?case
    by simp
qed

lemma spans_in_order_filter:
  assumes "spans_in_order lo hi (map f xs)"
  shows "spans_in_order lo hi (map f (filter P xs))"
proof -
  have b: "\<forall>x \<in> set (map f (filter P xs)). lo \<le> fst x \<and> fst x \<le> snd x \<and> snd x \<le> hi"
    using assms by (auto simp: spans_in_order_def)
  have "sorted_wrt (\<lambda>a b. fst (f a) \<le> fst (f b)) xs"
    using assms by (simp add: spans_in_order_def sorted_wrt_map)
  then have "sorted_wrt (\<lambda>a b. fst (f a) \<le> fst (f b)) (filter P xs)"
    by (rule sorted_wrt_filter)
  then have s: "sorted (map fst (map f (filter P xs)))"
    by (simp add: sorted_wrt_map)
  have "sorted_wrt (\<lambda>a b. snd (f a) \<le> fst (f b) \<or> snd (f b) \<le> snd (f a)) xs"
    using assms by (simp add: spans_in_order_def sorted_wrt_map)
  then have "sorted_wrt (\<lambda>a b. snd (f a) \<le> fst (f b) \<or> snd (f b) \<le> snd (f a)) (filter P xs)"
    by (rule sorted_wrt_filter)
  then have l: "sorted_wrt (\<lambda>a b. snd a \<le> fst b \<or> snd b \<le> snd a) (map f (filter P xs))"
    by (simp add: sorted_wrt_map)
  show ?thesis
    unfolding spans_in_order_def using b s l by (intro conjI)
qed

text \<open>
  C10, as the code has it. Let the tree be well formed (as every tree built by tree-sitter
  is) and let \<^verbatim>\<open>parse\<close> return a result. Function records carry a first and a last line,
  class records a start and an end point; import and variable records carry no position.
  The lines of every function record lie between the first and the last line of the root,
  the points of every class record between the start and the end point of the root, and
  the lines of the methods of a class between the first and the last line of that class.
  In each of these sequences starts never decrease, and of two records the later one
  either starts no earlier than the earlier one ends or lies inside it; for class records
  the first case means that the two share no character, for function records it allows
  the later one to start on the line on which the earlier one ends. Import records are
  listed in the order of the nodes they are made of, and these nodes are in the same
  order. Variable records are listed node by node along the pre-order walk, all records
  of one node together.
\<close>

theorem record_spans_in_order:
  "wf_node t \<Longrightarrow> parse self (Tree t) = Inr r \<Longrightarrow>
   spans_in_order (fst (start_point t)) (fst (end_point t)) (map method_span (res_functions r)) \<and>
   spans_in_order (start_point t) (end_point t) (map class_span (res_classes r)) \<and>
   (\<forall>c \<in> set (res_classes r).
      spans_in_order (fst (class_start_point c)) (fst (class_end_point c))
        (map method_span (methods c))) \<and>
   res_imports r =
     map import_of (filter (\<lambda>n. node_type n \<in> set (import_identifiers (config self))) (preorder t)) \<and>
   spans_in_order (start_point t) (end_point t)
     (map node_span (filter (\<lambda>n. node_type n \<in> set (import_identifiers (config self))) (preorder t))) \<and>
   res_variables r = concat (map (variables_at self) (preorder t)) \<and>
   spans_in_order (start_point t) (end_point t) (map node_span (preorder t))"
proof -
  assume wf: "wf_node t" and p: "parse self (Tree t) = Inr r"
  from p obtain cls fns where c: "visit_class self None t = Inr cls"
    and f: "visit_function self None t = Inr fns"
    and r: "res_classes r = cls" "res_functions r = fns"
      "res_imports r = visit_import self t" "res_variables r = visit_variable self t"
    by (auto simp: parse_def extract_classes_def extract_functions_def extract_imports_def
          extract_variables_def split: sum.splits)
  have A: "spans_in_order (fst (start_point t)) (fst (end_point t)) (map method_span (res_functions r))"
    using function_spans(1) [OF wf f] r by simp
  have B: "spans_in_order (start_point t) (end_point t) (map class_span (res_classes r))"
    and B': "\<forall>c \<in> set (res_classes r).
        spans_in_order (fst (class_start_point c)) (fst (class_end_point c))
          (map method_span (methods c))"
    using class_spans(1) [OF wf c] r by simp_all
  have C: "res_imports r =
     map import_of (filter (\<lambda>n. node_type n \<in> set (import_identifiers (config self))) (preorder t))"
    using r by (simp only: visit_import_preorder)
  have D: "res_variables r = concat (map (variables_at self) (preorder t))"
    using r by (simp only: visit_variable_preorder)
  have E: "spans_in_order (start_point t) (end_point t) (map node_span (preorder t))"
    using wf by (rule preorder_spans(1))
  have C': "spans_in_order (start_point t) (end_point t)
     (map node_span (filter (\<lambda>n. node_type n \<in> set (import_identifiers (config self))) (preorder t)))"
    using E by (rule spans_in_order_filter)
  from A B B' C C' D E show ?thesis
    by (intro conjI)
qed

text \<open>
  The theorem at the cpp parser, on a tree with three method nodes (one inside a class
  node, one after it, one nested in the second), and at the python parser on the tree of
  \<^verbatim>\<open>class A: pass\<close> / \<^verbatim>\<open>class B: pass\<close>, whose two keyword tokens are recorded as classes.
\<close>

theorem record_spans_in_order_witness:
  "wf_node tagged_nested_tree \<and>
   (\<exists>r. parse cpp_parser (Tree tagged_nested_tree) = Inr r \<and>
        map method_span (res_functions r) = [(1, 1), (3, 5), (4, 4)] \<and>
        spans_in_order 0 5 (map method_span (res_functions r)) \<and>
        map class_span (res_classes r) = [((0, 0), (2, 1))] \<and>
        map (map method_span \<circ> methods) (res_classes r) = [[(1, 1)]]) \<and>
   wf_node py_two_classes_tree \<and>
   (\<exists>r. parse python_parser (Tree py_two_classes_tree) = Inr r \<and>
        map class_span (res_classes r) = [((0, 0), (0, 5)), ((1, 0), (1, 5))] \<and>
        spans_in_order (0, 0) (1, 13) (map class_span (res_classes r)))"
proof -
  have w1: "wf_node tagged_nested_tree"
    by code_simp
  have w2: "wf_node py_two_classes_tree"
    by code_simp
  define m1 where "m1 = \<lparr> name = '''', doc_comment = '''', method_source_code = '''',
      start_line = 1, end_line = 1 \<rparr>"
  define m2 where "m2 = \<lparr> name = '''', doc_comment = '''', method_source_code = '''',
      start_line = 3, end_line = 5 \<rparr>"
  define m3 where "m3 = \<lparr> name = '''', doc_comment = '''', method_source_code = '''',
      start_line = 4, end_line = 4 \<rparr>"
  define r1 where "r1 = \<lparr> res_imports = [],
      res_classes = [\<lparr> class_name = '''', docstring = '''', methods = [m1],
                       class_start_point = (0, 0), class_end_point = (2, 1) \<rparr>],
      res_functions = [m1, m2, m3], res_variables = [] \<rparr>"
  define r2 where "r2 = \<lparr> res_imports = [],
      res_classes = [\<lparr> class_name = '''', docstring = '''', methods = [],
                       class_start_point = (0, 0), class_end_point = (0, 5) \<rparr>,
                     \<lparr> class_name = '''', docstring = '''', methods = [],
                       class_start_point = (1, 0), class_end_point = (1, 5) \<rparr>],
      res_functions = [], res_variables = [] \<rparr>"
  have p1: "parse cpp_parser (Tree tagged_nested_tree) = Inr r1"
    unfolding r1_def m1_def m2_def m3_def by code_simp
  have p2: "parse python_parser (Tree py_two_classes_tree) = Inr r2"
    unfolding r2_def by code_simp
  have e1: "start_point tagged_nested_tree = (0, 0)" "end_point tagged_nested_tree = (5, 1)"
    by (simp_all add: tagged_nested_tree_def)
  have e2: "start_point py_two_classes_tree = (0, 0)" "end_point py_two_classes_tree = (1, 13)"
    by (simp_all add: py_two_classes_tree_def)
  from record_spans_in_order [OF w1 p1] e1
  have s1: "spans_in_order 0 5 (map method_span (res_functions r1))"
    by simp
  from record_spans_in_order [OF w2 p2] e2
  have s2: "spans_in_order (0, 0) (1, 13) (map class_span (res_classes r2))"
    by simp
  have v1: "map method_span (res_functions r1) = [(1, 1), (3, 5), (4, 4)]"
    "map class_span (res_classes r1) = [((0, 0), (2, 1))]"
    "map (map method_span \<circ> methods) (res_classes r1) = [[(1, 1)]]"
    by (simp_all add: r1_def m1_def m2_def m3_def method_span_def class_span_def)
  have v2: "map class_span (res_classes r2) = [((0, 0), (0, 5)), ((1, 0), (1, 5))]"
    by (simp add: r2_def class_span_def)
  have x1: "\<exists>r. parse cpp_parser (Tree tagged_nested_tree) = Inr r \<and>
        map method_span (res_functions r) = [(1, 1), (3, 5), (4, 4)] \<and>
        spans_in_order 0 5 (map method_span (res_functions r)) \<and>
        map class_span (res_classes r) = [((0, 0), (2, 1))] \<and>
        map (map method_span \<circ> methods) (res_classes r) = [[(1, 1)]]"
  proof (intro exI conjI)
    show "parse cpp_parser (Tree tagged_nested_tree) = Inr r1" by (rule p1)
    show "map method_span (res_functions r1) = [(1, 1), (3, 5), (4, 4)]" by (rule v1(1))
    show "spans_in_order 0 5 (map method_span (res_functions r1))" by (rule s1)
    show "map class_span (res_classes r1) = [((0, 0), (2, 1))]" by (rule v1(2))
    show "map (map method_span \<circ> methods) (res_classes r1) = [[(1, 1)]]" by (rule v1(3))
  qed
  have x2: "\<exists>r. parse python_parser (Tree py_two_classes_tree) = Inr r \<and>
        map class_span (res_classes r) = [((0, 0), (0, 5)), ((1, 0), (1, 5))] \<and>
        spans_in_order (0, 0) (1, 13) (map class_span (res_classes r))"
  proof (intro exI conjI)
    show "parse python_parser (Tree py_two_classes_tree) = Inr r2" by (rule p2)
    show "map class_span (res_classes r2) = [((0, 0), (0, 5)), ((1, 0), (1, 5))]" by (rule v2)
    show "spans_in_order (0, 0) (1, 13) (map class_span (res_classes r2))" by (rule s2)
  qed
  show ?thesis
    by (intro conjI w1 w2 x1 x2)
qed

text \<open>
  C10 as it is worded fails, in two ways. Variable records are not in document order:
  for the javascript source \<^verbatim>\<open>const a = function(){ const b = 1; }, c = 2;\<close> the records
  come out as \<^verbatim>\<open>a\<close>, \<^verbatim>\<open>c\<close>, \<^verbatim>\<open>b\<close>, although \<^verbatim>\<open>b\<close> is declared at column 28 and \<^verbatim>\<open>c\<close> at
  column 38; the declarators of a statement are recorded together, before the walk goes
  into the initializer of the first. And the spans of neighbouring function records can
  overlap: a function record carries lines only, and two method nodes side by side on one
  line give two records that both span line 0 to line 0.
\<close>

theorem javascript_variables_out_of_order:
  "init ''javascript'' None = Inr javascript_parser \<and>
   wf_node js_nested_declaration_tree \<and>
   parse javascript_parser (Tree js_nested_declaration_tree) =
     Inr \<lparr> res_imports = [], res_classes = [], res_functions = [],
           res_variables =
             [[(''name'', ''a''), (''value'', ''function(){ const b = 1; }'')],
              [(''name'', ''c''), (''value'', ''2'')],
              [(''name'', ''b''), (''value'', ''1'')]] \<rparr> \<and>
   start_point js_declarator_a = (0, 6) \<and>
   start_point js_declarator_b = (0, 28) \<and>
   start_point js_declarator_c = (0, 38) \<and>
   wf_node tagged_same_line_tree \<and>
   parse cpp_parser (Tree tagged_same_line_tree) =
     Inr \<lparr> res_imports = [], res_classes = [],
           res_functions =
             [\<lparr> name = '''', doc_comment = '''', method_source_code = '''',
                start_line = 0, end_line = 0 \<rparr>,
              \<lparr> name = '''', doc_comment = '''', method_source_code = '''',
                start_line = 0, end_line = 0 \<rparr>],
           res_variables = [] \<rparr>"
  by code_simp

end
